theory Spec2Isabelle
  imports Complex_Main "HOL-Library.Multiset"
begin

section \<open>The iRON dashboard server (app.py): strings and requests\<close>

text \<open>
  Python strings are lists of characters; a character of the model is a code point below
  256. Environment variables read with \<open>os.getenv\<close> are \<open>None\<close> when unset, and an
  f-string prints \<open>None\<close> as the four letters.
\<close>

definition py_isspace :: "char \<Rightarrow> bool" where
  "py_isspace c = (let n = (of_char c :: nat) in
     (9 \<le> n \<and> n \<le> 13) \<or> (28 \<le> n \<and> n \<le> 32) \<or> n = 133 \<or> n = 160)"

definition strip :: "string \<Rightarrow> string" where
  "strip s = rev (dropWhile py_isspace (rev (dropWhile py_isspace s)))"

definition digit_char :: "nat \<Rightarrow> char" where
  "digit_char d = ''0123456789'' ! d"

function str_nat :: "nat \<Rightarrow> string" where
  "str_nat n = (if n < 10 then [digit_char n] else str_nat (n div 10) @ [digit_char (n mod 10)])"
  by pat_completeness auto
termination
  by (relation "measure id") auto

declare str_nat.simps [simp del]

definition str_opt :: "string option \<Rightarrow> string" where
  "str_opt v = (case v of None \<Rightarrow> ''None'' | Some s \<Rightarrow> s)"

fun join_comma :: "string list \<Rightarrow> string" where
  "join_comma [] = []"
| "join_comma [x] = x"
| "join_comma (x # y # ys) = x @ '','' @ join_comma (y # ys)"

fun split_comma :: "string \<Rightarrow> string list" where
  "split_comma [] = [[]]"
| "split_comma (c # cs) =
     (if c = CHR '','' then [] # split_comma cs
      else (case split_comma cs of [] \<Rightarrow> [[c]] | w # ws \<Rightarrow> (c # w) # ws))"

subsection \<open>HTTP requests and their outcomes\<close>

datatype http_method = GET | POST

record request =
  verb :: http_method
  url :: string
  headers :: "(string \<times> string) list"
  json_body :: "(string \<times> string) list"
  timeout :: "nat option"

datatype exn_class = RequestException | ValueError | MergeError | OtherException

datatype exn = Exn (cls: exn_class) (msg: string)

subsection \<open>The weather API's response document\<close>

text \<open>
  Only the shape \<open>{STATION: [{OBSERVATIONS: {date_time: [...], <var>_set_1: [...]}}]}\<close>
  is consumed. The entries of an observation array are JSON scalars (a number is
  the value that a column holds for it, a rational: the program carries the numbers and
  never computes with them, and the storage of a column as integers or floats is not
  modelled); an \<open>OBSERVATIONS\<close>
  object maps keys to arrays; an element of \<open>STATION\<close> is an object whose
  \<open>OBSERVATIONS\<close> field is absent or such an object. A top-level field is a string, a
  list of stations, or any other JSON value (\<open>Other\<close>: not a list). A dict is an
  association list read with \<open>map_of\<close>; the empty dict is the empty list.
  \<open>response.json()\<close> returns the decoded object or raises a decoding error, whose
  message is the \<open>Inl\<close> of the field \<open>json\<close>.
\<close>

datatype scalar = Null | Num rat | Str string

type_synonym observations = "(string \<times> scalar list) list"

datatype station = Station (OBSERVATIONS: "observations option")

datatype field = Text string | Stations "station list" | Other

type_synonym payload = "(string \<times> field) list"

record response =
  status_code :: nat
  reason :: string
  body_text :: string
  json :: "string + payload"

datatype outcome = Returns response | Raises exn

subsection \<open>Feedback submission (submit_feedback_issue)\<close>

record config =
  GITHUB_TOKEN :: "string option"
  REPO_OWNER :: "string option"
  REPO_NAME :: "string option"

datatype event =
    SetStatus string
  | Notify string string "nat option"
  | Sent request
  | UpdateButton string string bool
  | Print string

definition empty_msg :: string where
  "empty_msg = ''Feedback is empty. Please type something first.''"

definition issue_request :: "config \<Rightarrow> string \<Rightarrow> request" where
  "issue_request cfg feedback =
     \<lparr> verb = POST,
       url = ''https://api.github.com/repos/'' @ str_opt (REPO_OWNER cfg) @ ''/''
             @ str_opt (REPO_NAME cfg) @ ''/issues'',
       headers = [(''Authorization'', ''token '' @ str_opt (GITHUB_TOKEN cfg)),
                  (''Accept'', ''application/vnd.github.v3+json'')],
       json_body = [(''title'', ''User Feedback from Shiny App''), (''body'', feedback)],
       timeout = Some 10 \<rparr>"

definition issue_error_msg :: "response \<Rightarrow> string" where
  "issue_error_msg r =
     ''Error creating issue: '' @ str_nat (status_code r) @ [CHR 0x0A] @ body_text r"

text \<open>
  The effect handler returns the events it causes, in order: status updates,
  notifications, the requests it sends, button updates and prints. \<open>net\<close> is the remote
  side: what a request returns or raises. The \<open>finally\<close> block runs after the
  \<open>try\<close> body and after the \<open>except\<close> handler alike; the early return of the empty
  case comes before the \<open>try\<close>.
\<close>

definition submit_feedback_issue :: "config \<Rightarrow> (request \<Rightarrow> outcome) \<Rightarrow> string \<Rightarrow> event list" where
  "submit_feedback_issue cfg net feedback_text =
     (let feedback = strip feedback_text in
      if feedback = [] then
        [SetStatus empty_msg, Notify empty_msg ''warning'' (Some 4000)]
      else
        (let req = issue_request cfg feedback in
         [Sent req]
         @ (case net req of
              Returns r \<Rightarrow>
                (if status_code r = 201 then
                   [SetStatus ''Thank you! Your feedback has been submitted.'',
                    Notify ''Thank you! Your feedback has been submitted as a GitHub issue.''
                      ''message'' (Some 5000)]
                 else
                   [SetStatus (issue_error_msg r), Notify (issue_error_msg r) ''error'' None])
            | Raises e \<Rightarrow>
                [SetStatus (''Error: '' @ msg e), Notify (''Error: '' @ msg e) ''error'' None])
         @ [UpdateButton ''submit_feedback'' ''Submit Feedback'' False,
            Print ''Feedback submission completed.'']))"


definition status_after :: "string \<Rightarrow> event list \<Rightarrow> string" where
  "status_after s es = (case [t. SetStatus t \<leftarrow> es] of [] \<Rightarrow> s | ts \<Rightarrow> last ts)"

definition sent :: "event list \<Rightarrow> request list" where
  "sent es = [r. Sent r \<leftarrow> es]"


subsection \<open>The variable list (get_vars_str)\<close>

text \<open>
  \<open>input.vars()\<close> is \<open>None\<close>, a single string, a tuple or a list of strings.
\<close>

datatype raw_vars = VNone | VStr string | VTuple "string list" | VList "string list"

definition falsy_vars :: "raw_vars \<Rightarrow> bool" where
  "falsy_vars v = (case v of VNone \<Rightarrow> True | VStr s \<Rightarrow> s = [] | VTuple xs \<Rightarrow> xs = []
                   | VList xs \<Rightarrow> xs = [])"

definition get_vars_str :: "raw_vars \<Rightarrow> string" where
  "get_vars_str raw =
     (if falsy_vars raw then ''air_temp''
      else (case raw of
              VTuple xs \<Rightarrow> join_comma xs
            | VList xs \<Rightarrow> join_comma xs
            | VStr s \<Rightarrow> s
            | VNone \<Rightarrow> ''None''))"

section \<open>The reactive data pipeline\<close>

subsection \<open>Fetching (weather_data)\<close>

definition error_dict :: "string \<Rightarrow> payload" where
  "error_dict m = [(''Error'', Text m)]"

definition get_request :: "string \<Rightarrow> request" where
  "get_request u = \<lparr> verb = GET, url = u, headers = [], json_body = [], timeout = None \<rparr>"

definition is_list :: "field \<Rightarrow> bool" where
  "is_list v = (case v of Stations _ \<Rightarrow> True | _ \<Rightarrow> False)"

text \<open>
  \<open>request_url\<close> is the value of \<open>url()\<close>, the empty string when the station or the
  date range is not usable. The result is the value returned (or the exception that
  escapes) and the requests sent.
  \<open>except requests.exceptions.RequestException\<close> catches what \<open>requests.get\<close> raises
  for transport failures and the decoding error of \<open>response.json()\<close> (a
  \<open>RequestException\<close> in requests 2.27 and later); any other exception escapes.
\<close>

definition weather_data :: "(request \<Rightarrow> outcome) \<Rightarrow> string \<Rightarrow> (exn + payload) \<times> request list" where
  "weather_data net request_url =
     (if request_url = [] then (Inr (error_dict ''Invalid API URL.''), [])
      else
        (let req = get_request request_url in
         (case net req of
            Raises e \<Rightarrow>
              (if cls e = RequestException
               then Inr (error_dict (''Error fetching API data: '' @ msg e))
               else Inl e)
          | Returns response \<Rightarrow>
              (if status_code response \<noteq> 200 then
                 Inr (error_dict (''API Error: '' @ str_nat (status_code response) @ '' - ''
                                  @ reason response))
               else
                 (case json response of
                    Inl m \<Rightarrow> Inr (error_dict (''Error fetching API data: '' @ m))
                  | Inr data \<Rightarrow>
                      (case map_of data ''STATION'' of
                         None \<Rightarrow> Inr (error_dict ''Unexpected API response format.'')
                       | Some v \<Rightarrow>
                           (if \<not> is_list v
                            then Inr (error_dict ''Unexpected API response format.'')
                            else Inr data)))),
          [req])))"

subsection \<open>Data frames\<close>

text \<open>
  A timestamp is a number of nanoseconds since the epoch or the missing marker \<open>NaT\<close>. A frame has the
  key column \<open>Time\<close> first and then its value columns, all of one length. The key column
  holds timestamps when it comes from \<open>pd.to_datetime\<close>, and plain values when a
  column called \<open>Time\<close> overwrote it. In a value column \<open>Null\<close> is the missing marker.
  \<open>pd.DataFrame()\<close>, the frame with no column at all, is \<open>None\<close> of
  \<open>frame option\<close>.
\<close>

datatype timestamp = Stamp int | NaT

datatype keycol = TimeCol "timestamp list" | ValCol "scalar list"

record frame =
  time :: keycol
  cols :: "(string \<times> scalar list) list"

definition nrows :: "frame \<Rightarrow> nat" where
  "nrows f = (case time f of TimeCol ts \<Rightarrow> length ts | ValCol vs \<Rightarrow> length vs)"

definition df_empty :: "frame \<Rightarrow> bool" where
  "df_empty f = (nrows f = 0)"

text \<open>
  \<open>pd.to_datetime\<close>: the library's parser reads one entry of an array (the array is
  its context: the format is inferred from it) and gives a timestamp, or \<open>None\<close> when
  the entry is invalid. With \<open>errors="coerce"\<close> an invalid entry becomes \<open>NaT\<close>; by
  default it raises.
\<close>

type_synonym dt_parser = "scalar list \<Rightarrow> scalar \<Rightarrow> timestamp option"

definition to_datetime_coerce :: "dt_parser \<Rightarrow> scalar list \<Rightarrow> timestamp list" where
  "to_datetime_coerce parse xs = map (\<lambda>x. case parse xs x of None \<Rightarrow> NaT | Some t \<Rightarrow> t) xs"

fun parse_all :: "(scalar \<Rightarrow> timestamp option) \<Rightarrow> scalar list \<Rightarrow> exn + timestamp list" where
  "parse_all p [] = Inr []"
| "parse_all p (x # xs) =
     (case p x of
        None \<Rightarrow> Inl (Exn ValueError ''Unknown datetime string format'')
      | Some t \<Rightarrow> (case parse_all p xs of Inl e \<Rightarrow> Inl e | Inr ts \<Rightarrow> Inr (t # ts)))"

definition to_datetime :: "dt_parser \<Rightarrow> scalar list \<Rightarrow> exn + timestamp list" where
  "to_datetime parse xs = parse_all (parse xs) xs"

definition get_or_empty :: "observations \<Rightarrow> string \<Rightarrow> scalar list" where
  "get_or_empty observations k = (case map_of observations k of None \<Rightarrow> [] | Some xs \<Rightarrow> xs)"

text \<open>
  \<open>df[name] = values\<close>: the column replaces the one of that name or is appended. The
  lengths must agree, except that a frame with no rows takes the length of a non-empty
  list, its other columns filled with missing markers.
\<close>

fun upd_col :: "string \<Rightarrow> scalar list \<Rightarrow> (string \<times> scalar list) list \<Rightarrow> (string \<times> scalar list) list" where
  "upd_col n v [] = [(n, v)]"
| "upd_col n v ((m, w) # cs) = (if m = n then (n, v) # cs else (m, w) # upd_col n v cs)"

definition set_column :: "string \<Rightarrow> scalar list \<Rightarrow> frame \<Rightarrow> frame" where
  "set_column n v f =
     (if n = ''Time'' then f\<lparr>time := ValCol v\<rparr> else f\<lparr>cols := upd_col n v (cols f)\<rparr>)"

definition reindex :: "nat \<Rightarrow> frame \<Rightarrow> frame" where
  "reindex m f =
     \<lparr> time = (case time f of TimeCol _ \<Rightarrow> TimeCol (replicate m NaT)
                           | ValCol _ \<Rightarrow> ValCol (replicate m Null)),
       cols = map (\<lambda>c. (fst c, replicate m Null)) (cols f) \<rparr>"

definition df_setitem :: "frame \<Rightarrow> string \<Rightarrow> scalar list \<Rightarrow> exn + frame" where
  "df_setitem f n v =
     (if nrows f = 0 \<and> v \<noteq> [] then Inr (set_column n v (reindex (length v) f))
      else if length v \<noteq> nrows f
      then Inl (Exn ValueError ''Length of values does not match length of index'')
      else Inr (set_column n v f))"

text \<open>
  \<open>pd.DataFrame({"Time": times, var_name: values})\<close>: in the dict literal a second key
  \<open>Time\<close> replaces the first.
\<close>

definition DataFrame2 :: "timestamp list \<Rightarrow> string \<Rightarrow> scalar list \<Rightarrow> exn + frame" where
  "DataFrame2 stamps var_name vals =
     (if var_name = ''Time'' then Inr \<lparr> time = ValCol vals, cols = [] \<rparr>
      else if length stamps \<noteq> length vals
      then Inl (Exn ValueError ''All arrays must be of the same length'')
      else Inr \<lparr> time = TimeCol stamps, cols = [(var_name, vals)] \<rparr>)"

subsection \<open>The outer join on Time (pd.merge)\<close>

text \<open>
  \<open>pd.merge(left, right, on="Time", how="outer")\<close>: the keys of the result are the keys
  of both sides, each once, sorted; equal keys match, missing ones too. Timestamps are
  compared as pandas holds them, as 64-bit integers of which \<open>NaT\<close> is the least, so
  the key \<open>NaT\<close> comes first. A key found on both sides gives one row for every pair of a left and a right
  row that carry it, a key found on one side gives that side's rows, the other side's
  cells missing. Rows are named by their positions in the two frames; the positions are
  below the length of every column, all columns of a frame being as long as its key
  column.
\<close>

fun ts_le :: "timestamp \<Rightarrow> timestamp \<Rightarrow> bool" where
  "ts_le (Stamp a) (Stamp b) = (a \<le> b)"
| "ts_le NaT _ = True"
| "ts_le (Stamp a) NaT = False"

fun str_le :: "string \<Rightarrow> string \<Rightarrow> bool" where
  "str_le [] _ = True"
| "str_le (c # cs) [] = False"
| "str_le (c # cs) (d # ds) =
     ((of_char c :: nat) < of_char d \<or> (c = d \<and> str_le cs ds))"

text \<open>
  Keys that are plain values (a key column that a variable called \<open>Time\<close>
  overwrote): numbers by value, strings by code points, numbers before strings, the
  missing marker last.
\<close>

fun scalar_le :: "scalar \<Rightarrow> scalar \<Rightarrow> bool" where
  "scalar_le (Num a) (Num b) = (a \<le> b)"
| "scalar_le (Str s) (Str t) = str_le s t"
| "scalar_le (Num a) (Str t) = True"
| "scalar_le (Str s) (Num b) = False"
| "scalar_le _ Null = True"
| "scalar_le Null _ = False"

fun insort_by :: "('k \<Rightarrow> 'k \<Rightarrow> bool) \<Rightarrow> 'k \<Rightarrow> 'k list \<Rightarrow> 'k list" where
  "insort_by le x [] = [x]"
| "insort_by le x (y # ys) = (if le x y then x # y # ys else y # insort_by le x ys)"

definition sort_by :: "('k \<Rightarrow> 'k \<Rightarrow> bool) \<Rightarrow> 'k list \<Rightarrow> 'k list" where
  "sort_by le xs = foldr (insort_by le) xs []"

definition positions :: "'k \<Rightarrow> 'k list \<Rightarrow> nat list" where
  "positions k ks = filter (\<lambda>i. ks ! i = k) [0..<length ks]"

definition group_pairs :: "nat list \<Rightarrow> nat list \<Rightarrow> (nat option \<times> nat option) list" where
  "group_pairs ls rs =
     (if rs = [] then map (\<lambda>i. (Some i, None)) ls
      else if ls = [] then map (\<lambda>j. (None, Some j)) rs
      else concat (map (\<lambda>i. map (\<lambda>j. (Some i, Some j)) rs) ls))"

definition outer_join :: "('k \<Rightarrow> 'k \<Rightarrow> bool) \<Rightarrow> 'k list \<Rightarrow> 'k list \<Rightarrow> ('k \<times> nat option \<times> nat option) list" where
  "outer_join le lk rk =
     concat (map (\<lambda>k. map (Pair k) (group_pairs (positions k lk) (positions k rk)))
                 (sort_by le (remdups (lk @ rk))))"

definition pick :: "scalar list \<Rightarrow> nat option \<Rightarrow> scalar" where
  "pick c ix = (case ix of None \<Rightarrow> Null | Some i \<Rightarrow> c ! i)"

definition gather :: "scalar list \<Rightarrow> nat option list \<Rightarrow> scalar list" where
  "gather c ixs = map (pick c) ixs"

text \<open>
  A value column named on both sides gets the suffix \<open>_x\<close> on the left and \<open>_y\<close> on
  the right; pandas (2.0 and later) raises when a suffix makes a label of one side a
  duplicate that it was not before.
\<close>

definition suffixed :: "string list \<Rightarrow> string \<Rightarrow> string \<Rightarrow> string" where
  "suffixed overlap sfx n = (if n \<in> set overlap then n @ sfx else n)"

fun duplicated :: "'a list \<Rightarrow> 'a list \<Rightarrow> bool list" where
  "duplicated seen [] = []"
| "duplicated seen (x # xs) = (x \<in> set seen) # duplicated (x # seen) xs"

definition dups_caused :: "string list \<Rightarrow> string list \<Rightarrow> bool" where
  "dups_caused orig renamed =
     list_ex (\<lambda>p. fst p \<and> \<not> snd p) (zip (duplicated [] renamed) (duplicated [] orig))"

definition joined_cols :: "frame \<Rightarrow> frame \<Rightarrow> (nat option \<times> nat option) list \<Rightarrow> (string \<times> scalar list) list" where
  "joined_cols left right ixs =
     (let lnames = map fst (cols left); rnames = map fst (cols right);
          overlap = filter (\<lambda>n. n \<in> set rnames) lnames
      in map (\<lambda>c. (suffixed overlap ''_x'' (fst c), gather (snd c) (map fst ixs))) (cols left)
         @ map (\<lambda>c. (suffixed overlap ''_y'' (fst c), gather (snd c) (map snd ixs))) (cols right))"

definition suffix_clash :: "frame \<Rightarrow> frame \<Rightarrow> bool" where
  "suffix_clash left right =
     (let lnames = map fst (cols left); rnames = map fst (cols right);
          overlap = filter (\<lambda>n. n \<in> set rnames) lnames
      in dups_caused lnames (map (suffixed overlap ''_x'') lnames)
         \<or> dups_caused rnames (map (suffixed overlap ''_y'') rnames))"

text \<open>
  The key columns must be of one kind: pandas refuses to join timestamps with plain
  values. In this program \<open>pd_merge\<close> is reached with two frames that have rows
  (lines 434 and 441).
\<close>

definition pd_merge :: "frame \<Rightarrow> frame \<Rightarrow> exn + frame" where
  "pd_merge left right =
     (case (time left, time right) of
        (TimeCol lk, TimeCol rk) \<Rightarrow>
          (if suffix_clash left right
           then Inl (Exn MergeError ''Passing suffixes which cause duplicate columns is not allowed.'')
           else (let j = outer_join ts_le lk rk
                 in Inr \<lparr> time = TimeCol (map fst j), cols = joined_cols left right (map snd j) \<rparr>))
      | (ValCol lk, ValCol rk) \<Rightarrow>
          (if suffix_clash left right
           then Inl (Exn MergeError ''Passing suffixes which cause duplicate columns is not allowed.'')
           else (let j = outer_join scalar_le lk rk
                 in Inr \<lparr> time = ValCol (map fst j), cols = joined_cols left right (map snd j) \<rparr>))
      | _ \<Rightarrow> Inl (Exn ValueError ''You are trying to merge on datetime64[ns] and object columns''))"

text \<open>Lines 441 to 444: the first frame seeds the master, the later ones are joined.\<close>

definition merge_step :: "frame option \<Rightarrow> frame \<Rightarrow> exn + frame" where
  "merge_step df_master df_var =
     (case df_master of
        None \<Rightarrow> Inr df_var
      | Some m \<Rightarrow> (if df_empty m then Inr df_var else pd_merge m df_var))"

subsection \<open>The plot computation (parsed_data, weather_plot)\<close>

fun parsed_loop :: "observations \<Rightarrow> string list \<Rightarrow> frame \<Rightarrow> exn + frame" where
  "parsed_loop observations [] df = Inr df"
| "parsed_loop observations (var_name # rest) df =
     (case map_of observations (var_name @ ''_set_1'') of
        None \<Rightarrow> parsed_loop observations rest df
      | Some vs \<Rightarrow>
          (case df_setitem df var_name vs of
             Inl e \<Rightarrow> Inl e
           | Inr df' \<Rightarrow> parsed_loop observations rest df'))"

definition station_list_of :: "payload \<Rightarrow> field" where
  "station_list_of data =
     (case map_of data ''STATION'' of None \<Rightarrow> Stations [Station None] | Some v \<Rightarrow> v)"

text \<open>
  \<open>parsed_data\<close> returns \<open>None\<close>, a frame, or lets an exception escape: it has no
  \<open>try\<close>.
\<close>

definition parsed_data :: "dt_parser \<Rightarrow> raw_vars \<Rightarrow> payload \<Rightarrow> exn + frame option" where
  "parsed_data parse raw data =
     (if data = [] \<or> map_of data ''Error'' \<noteq> None then Inr None
      else
        (case station_list_of data of
           Stations (station_data # _) \<Rightarrow>
             (let observations = (case OBSERVATIONS station_data of None \<Rightarrow> [] | Some ob \<Rightarrow> ob)
              in (case to_datetime parse (get_or_empty observations ''date_time'') of
                    Inl e \<Rightarrow> Inl e
                  | Inr stamps \<Rightarrow>
                      (case parsed_loop observations (split_comma (get_vars_str raw))
                              \<lparr> time = TimeCol stamps, cols = [] \<rparr> of
                         Inl e \<Rightarrow> Inl e
                       | Inr df \<Rightarrow> Inr (Some df))))
         | _ \<Rightarrow> Inr None))"

text \<open>
  A figure is what the chart shows: a text, one variable on a single axis, or two
  variables on the primary and the secondary axis.
\<close>

datatype figure = TextOnly string | SingleAxis string | DualAxis string string

definition weather_plot :: "frame option \<Rightarrow> figure" where
  "weather_plot df =
     (case df of
        None \<Rightarrow> TextOnly ''No data available''
      | Some d \<Rightarrow>
          (if df_empty d then TextOnly ''No data available''
           else (case map fst (cols d) of
                   [] \<Rightarrow> TextOnly ''No variables selected''
                 | [var] \<Rightarrow> SingleAxis var
                 | var1 # var2 # _ \<Rightarrow> DualAxis var1 var2)))"

subsection \<open>The table computation (variable_data_output)\<close>

text \<open>
  \<open>ErrorGrid m\<close> is the grid of the one-cell frame \<open>{"Error": [m]}\<close>; \<open>DataGrid\<close> is
  the grid of the merged table.
\<close>

datatype grid = DataGrid "frame option" | ErrorGrid string

definition not_found_msg :: "string \<Rightarrow> string" where
  "not_found_msg variable_key =
     ''Variable '' @ [CHR 0x27] @ variable_key @ [CHR 0x27] @ '' not found in API response.''"

fun table_loop :: "dt_parser \<Rightarrow> observations \<Rightarrow> string list \<Rightarrow> frame option \<Rightarrow> exn + grid" where
  "table_loop parse observations [] df_master = Inr (DataGrid df_master)"
| "table_loop parse observations (var_name # rest) df_master =
     (case map_of observations (var_name @ ''_set_1'') of
        None \<Rightarrow> Inr (ErrorGrid (not_found_msg (var_name @ ''_set_1'')))
      | Some vs \<Rightarrow>
          (case DataFrame2 (to_datetime_coerce parse (get_or_empty observations ''date_time''))
                  var_name vs of
             Inl e \<Rightarrow> Inl e
           | Inr df_var \<Rightarrow>
               (if df_empty df_var then Inr (ErrorGrid ''No valid data available.'')
                else (case merge_step df_master df_var of
                        Inl e \<Rightarrow> Inl e
                      | Inr m \<Rightarrow> table_loop parse observations rest (Some m)))))"

definition table_body :: "dt_parser \<Rightarrow> raw_vars \<Rightarrow> payload \<Rightarrow> exn + grid" where
  "table_body parse raw data =
     (case station_list_of data of
        Stations (station_data # _) \<Rightarrow>
          (case OBSERVATIONS station_data of
             None \<Rightarrow> Inr (ErrorGrid ''Unexpected API response format.'')
           | Some observations \<Rightarrow>
               (if observations = [] then Inr (ErrorGrid ''Unexpected API response format.'')
                else table_loop parse observations (split_comma (get_vars_str raw)) None))
      | _ \<Rightarrow> Inr (ErrorGrid ''Unexpected API response format.''))"

definition variable_data_output :: "dt_parser \<Rightarrow> raw_vars \<Rightarrow> payload \<Rightarrow> grid" where
  "variable_data_output parse raw data =
     (if data = [] \<or> map_of data ''Error'' \<noteq> None then ErrorGrid ''No data available.''
      else (case table_body parse raw data of
              Inl e \<Rightarrow> ErrorGrid (''Error processing data: '' @ msg e)
            | Inr g \<Rightarrow> g))"

subsection \<open>The two renders of one computation\<close>

text \<open>
  Both renders read the value of \<open>weather_data\<close>; an exception that escapes it escapes
  them too.
\<close>

definition plot_render :: "(request \<Rightarrow> outcome) \<Rightarrow> dt_parser \<Rightarrow> raw_vars \<Rightarrow> string \<Rightarrow> exn + figure" where
  "plot_render net parse raw request_url =
     (case fst (weather_data net request_url) of
        Inl e \<Rightarrow> Inl e
      | Inr data \<Rightarrow>
          (case parsed_data parse raw data of
             Inl e \<Rightarrow> Inl e
           | Inr df \<Rightarrow> Inr (weather_plot df)))"

definition table_render :: "(request \<Rightarrow> outcome) \<Rightarrow> dt_parser \<Rightarrow> raw_vars \<Rightarrow> string \<Rightarrow> exn + grid" where
  "table_render net parse raw request_url =
     (case fst (weather_data net request_url) of
        Inl e \<Rightarrow> Inl e
      | Inr data \<Rightarrow> Inr (variable_data_output parse raw data))"

subsection \<open>Rows and cells of a frame\<close>

text \<open>
  A row is its key and its cells by column name, in column order. \<open>merge_pair\<close> runs
  lines 441 to 444 on an empty master for two frames in turn. \<open>cell_at\<close> is the
  observation of a series at a timestamp, the missing marker when it has none.
\<close>

datatype keycell = KTime timestamp | KVal scalar

definition key_cells :: "keycol \<Rightarrow> keycell list" where
  "key_cells k = (case k of TimeCol ts \<Rightarrow> map KTime ts | ValCol vs \<Rightarrow> map KVal vs)"

definition frame_rows :: "frame \<Rightarrow> (keycell \<times> (string \<times> scalar) list) list" where
  "frame_rows f =
     map (\<lambda>i. (key_cells (time f) ! i, map (\<lambda>c. (fst c, snd c ! i)) (cols f))) [0..<nrows f]"

definition row_cells :: "keycell \<times> (string \<times> scalar) list \<Rightarrow> keycell \<times> (string \<rightharpoonup> scalar)" where
  "row_cells r = (fst r, map_of (snd r))"

definition merge_pair :: "frame \<Rightarrow> frame \<Rightarrow> exn + frame" where
  "merge_pair a b =
     (case merge_step None a of Inl e \<Rightarrow> Inl e | Inr m \<Rightarrow> merge_step (Some m) b)"

definition cell_at :: "timestamp list \<Rightarrow> scalar list \<Rightarrow> timestamp \<Rightarrow> scalar" where
  "cell_at ts vs k = (case map_of (zip ts vs) k of None \<Rightarrow> Null | Some v \<Rightarrow> v)"

subsection \<open>Notions of the statements\<close>


definition series_row :: "string \<Rightarrow> scalar list \<Rightarrow> string \<Rightarrow> scalar list \<Rightarrow> timestamp \<times> nat option \<times> nat option \<Rightarrow> keycell \<times> (string \<times> scalar) list" where
  "series_row a va b vb t = (KTime (fst t), [(a, pick va (fst (snd t))), (b, pick vb (snd (snd t)))])"

definition swap_sides :: "'k \<times> nat option \<times> nat option \<Rightarrow> 'k \<times> nat option \<times> nat option" where
  "swap_sides t = (fst t, snd (snd t), fst (snd t))"

subsection \<open>Example inputs\<close>

definition ex_cfg :: config where
  "ex_cfg = \<lparr> GITHUB_TOKEN = Some ''token'', REPO_OWNER = Some ''iron-ops'',
              REPO_NAME = Some ''iRON-webtool'' \<rparr>"

definition net_status :: "nat \<Rightarrow> string \<Rightarrow> string \<Rightarrow> request \<Rightarrow> outcome" where
  "net_status c r b req =
     Returns \<lparr> status_code = c, reason = r, body_text = b, json = Inl ''Expecting value'' \<rparr>"

definition net_down :: "request \<Rightarrow> outcome" where
  "net_down req = Raises (Exn RequestException ''Connection reset by peer'')"

definition net_json :: "payload \<Rightarrow> request \<Rightarrow> outcome" where
  "net_json data req =
     Returns \<lparr> status_code = 200, reason = ''OK'', body_text = [], json = Inr data \<rparr>"

text \<open>A parser that knows two ISO 8601 strings and reads \<open>null\<close> as \<open>NaT\<close>.\<close>

definition ex_parse :: dt_parser where
  "ex_parse xs x =
     (case x of
        Null \<Rightarrow> Some NaT
      | Num n \<Rightarrow> None
      | Str s \<Rightarrow>
          (if s = ''2025-02-06T00:00:00Z'' then Some (Stamp 1738800000000000000)
           else if s = ''2025-02-06T01:00:00Z'' then Some (Stamp 1738803600000000000)
           else None))"

definition ex_data :: "observations \<Rightarrow> payload" where
  "ex_data obs = [(''STATION'', Stations [Station (Some obs)])]"

definition ex_url :: string where
  "ex_url = ''https://api.synopticdata.com/v2/stations/timeseries?stid=RFBRC''"

definition ex_frame :: "string list \<Rightarrow> frame" where
  "ex_frame names = \<lparr> time = TimeCol [Stamp 1738800000000000000],
                       cols = map (\<lambda>n. (n, [Num 1])) names \<rparr>"

definition ex_error_data :: payload where
  "ex_error_data =
     [(''Error'', Text ''quota exceeded''),
      (''STATION'', Stations [Station (Some [(''date_time'', [Str ''2025-02-06T00:00:00Z'']),
                                            (''air_temp_set_1'', [Num 1])])])]"

definition ex_bad_obs :: observations where
  "ex_bad_obs = [(''date_time'', [Str ''2025-02-06T00:00:00Z'', Str ''not-a-date'']),
                 (''air_temp_set_1'', [Num 1, Num 2])]"


definition ex_dup_obs :: observations where
  "ex_dup_obs = [(''date_time'', [Str ''2025-02-06T00:00:00Z'', Str ''2025-02-06T00:00:00Z'']),
                 (''air_temp_set_1'', [Num 1, Num 2]),
                 (''soil_temp_set_1'', [Num 3, Num 4])]"

definition ex_air :: frame where
  "ex_air = \<lparr> time = TimeCol [Stamp 10, Stamp 20], cols = [(''air_temp'', [Num 1, Num 2])] \<rparr>"

definition ex_soil :: frame where
  "ex_soil = \<lparr> time = TimeCol [Stamp 30, Stamp 20], cols = [(''soil_temp'', [Num 3, Num 4])] \<rparr>"

definition ex_air_soil :: frame where
  "ex_air_soil = \<lparr> time = TimeCol [Stamp 10, Stamp 20, Stamp 30],
                    cols = [(''air_temp'', [Num 1, Num 2, Null]),
                            (''soil_temp'', [Null, Num 4, Num 3])] \<rparr>"

definition ex_soil_air :: frame where
  "ex_soil_air = \<lparr> time = TimeCol [Stamp 10, Stamp 20, Stamp 30],
                    cols = [(''soil_temp'', [Null, Num 4, Num 3]),
                            (''air_temp'', [Num 1, Num 2, Null])] \<rparr>"

definition ex_dup_air :: frame where
  "ex_dup_air = \<lparr> time = TimeCol [Stamp 10, Stamp 10], cols = [(''air_temp'', [Num 1, Num 2])] \<rparr>"

definition ex_dup_soil :: frame where
  "ex_dup_soil = \<lparr> time = TimeCol [Stamp 10, Stamp 10], cols = [(''soil_temp'', [Num 3, Num 4])] \<rparr>"

definition ex_empty_obs :: observations where
  "ex_empty_obs = [(''date_time'', []), (''air_temp_set_1'', []), (''soil_temp_set_1'', [])]"

definition ex_late_soil :: frame where
  "ex_late_soil = \<lparr> time = TimeCol [NaT, Stamp 20], cols = [(''soil_temp'', [Num 3, Num 4])] \<rparr>"

definition ex_air_late :: frame where
  "ex_air_late = \<lparr> time = TimeCol [NaT, Stamp 10, Stamp 20],
                    cols = [(''air_temp'', [Null, Num 1, Num 2]),
                            (''soil_temp'', [Num 3, Null, Num 4])] \<rparr>"

section \<open>Verified properties\<close>

subsection \<open>The variable list\<close>

lemma join_comma_Cons: "join_comma (v # vs) = v @ concat (map ((#) CHR '','') vs)"
  by (induction vs arbitrary: v) auto

lemma split_join:
  "vs \<noteq> [] \<Longrightarrow> \<forall>v\<in>set vs. CHR '','' \<notin> set v \<Longrightarrow> split_comma (join_comma vs) = vs"
proof (induction vs rule: join_comma.induct)
  case 1
  then show ?case by simp
next
  case (2 x)
  then show ?case by (induction x) (auto split: list.splits)
next
  case (3 x y ys)
  then have IH: "split_comma (join_comma (y # ys)) = y # ys" by simp
  from 3 have "CHR '','' \<notin> set x" by simp
  then show ?case using IH by (induction x) (auto split: list.splits)
qed

text \<open>
  C9. When the selected variables are null or an empty list (or tuple), the formatted
  variable string is exactly \<open>air_temp\<close>; for a non-empty list (or tuple) it is the
  variables in their order, a comma before each one after the first.
\<close>

theorem get_vars_str_default_and_join:
  "get_vars_str VNone = ''air_temp'' \<and> get_vars_str (VList []) = ''air_temp''
   \<and> get_vars_str (VTuple []) = ''air_temp''
   \<and> get_vars_str (VList (v # vs)) = v @ concat (map ((#) CHR '','') vs)
   \<and> get_vars_str (VTuple (v # vs)) = v @ concat (map ((#) CHR '','') vs)"
  by (simp add: get_vars_str_def falsy_vars_def join_comma_Cons)

subsection \<open>Feedback submission\<close>

text \<open>
  C7. A submission whose stripped text is empty sends no request and sets the status to
  the empty-feedback message. A submission with other text sends exactly one request: the
  POST to the issues URL of the repository, with the token and the accept header, the
  fixed title and the stripped text as body, and a timeout of 10 seconds. When it returns
  201 the status is the thanks; when it returns any other code the status is
  \<open>Error creating issue:\<close> with the code and, on the next line, the response's text; when
  it raises, the status is \<open>Error:\<close> with the exception's text.
\<close>

theorem submit_feedback_states:
  "sent (submit_feedback_issue cfg net t)
     = (if strip t = [] then []
        else [\<lparr> verb = POST,
                url = ''https://api.github.com/repos/'' @ str_opt (REPO_OWNER cfg) @ ''/''
                      @ str_opt (REPO_NAME cfg) @ ''/issues'',
                headers = [(''Authorization'', ''token '' @ str_opt (GITHUB_TOKEN cfg)),
                           (''Accept'', ''application/vnd.github.v3+json'')],
                json_body = [(''title'', ''User Feedback from Shiny App''), (''body'', strip t)],
                timeout = Some 10 \<rparr>])
   \<and> status_after s (submit_feedback_issue cfg net t)
     = (if strip t = [] then ''Feedback is empty. Please type something first.''
        else (case net \<lparr> verb = POST,
                         url = ''https://api.github.com/repos/'' @ str_opt (REPO_OWNER cfg) @ ''/''
                               @ str_opt (REPO_NAME cfg) @ ''/issues'',
                         headers = [(''Authorization'', ''token '' @ str_opt (GITHUB_TOKEN cfg)),
                                    (''Accept'', ''application/vnd.github.v3+json'')],
                         json_body = [(''title'', ''User Feedback from Shiny App''),
                                      (''body'', strip t)],
                         timeout = Some 10 \<rparr> of
                Returns r \<Rightarrow>
                  (if status_code r = 201
                   then ''Thank you! Your feedback has been submitted.''
                   else ''Error creating issue: '' @ str_nat (status_code r) @ [CHR 0x0A]
                        @ body_text r)
              | Raises e \<Rightarrow> ''Error: '' @ msg e))"
  by (auto simp: submit_feedback_issue_def sent_def status_after_def Let_def issue_request_def
      issue_error_msg_def empty_msg_def split: outcome.splits)

theorem submit_feedback_states_witness:
  "sent (submit_feedback_issue ex_cfg (net_status 201 ''Created'' []) ''   '') = []
   \<and> status_after [] (submit_feedback_issue ex_cfg (net_status 201 ''Created'' []) ''   '')
       = ''Feedback is empty. Please type something first.''
   \<and> sent (submit_feedback_issue ex_cfg (net_status 201 ''Created'' []) '' hello '')
       = [\<lparr> verb = POST,
              url = ''https://api.github.com/repos/iron-ops/iRON-webtool/issues'',
              headers = [(''Authorization'', ''token token''),
                         (''Accept'', ''application/vnd.github.v3+json'')],
              json_body = [(''title'', ''User Feedback from Shiny App''), (''body'', ''hello'')],
              timeout = Some 10 \<rparr>]
   \<and> map url (sent (submit_feedback_issue
                       \<lparr> GITHUB_TOKEN = None, REPO_OWNER = None, REPO_NAME = None \<rparr>
                       (net_status 201 ''Created'' []) ''hello''))
       = [''https://api.github.com/repos/None/None/issues'']
   \<and> status_after [] (submit_feedback_issue ex_cfg (net_status 201 ''Created'' []) ''hello'')
       = ''Thank you! Your feedback has been submitted.''
   \<and> status_after [] (submit_feedback_issue ex_cfg (net_status 500 ''Server Error'' ''boom'') ''hello'')
       = ''Error creating issue: 500'' @ [CHR 0x0A] @ ''boom''
   \<and> status_after [] (submit_feedback_issue ex_cfg net_down ''hello'')
       = ''Error: Connection reset by peer''"
  using submit_feedback_states [of ex_cfg "net_status 201 ''Created'' []" "''   ''" "[]"]
    submit_feedback_states [of ex_cfg "net_status 201 ''Created'' []" "'' hello ''" "[]"]
    submit_feedback_states [of "\<lparr> GITHUB_TOKEN = None, REPO_OWNER = None, REPO_NAME = None \<rparr>"
      "net_status 201 ''Created'' []" "''hello''" "[]"]
    submit_feedback_states [of ex_cfg "net_status 201 ''Created'' []" "''hello''" "[]"]
    submit_feedback_states [of ex_cfg "net_status 500 ''Server Error'' ''boom''" "''hello''" "[]"]
    submit_feedback_states [of ex_cfg net_down "''hello''" "[]"]
  by (simp add: strip_def py_isspace_def net_status_def net_down_def ex_cfg_def str_opt_def
      str_nat.simps digit_char_def)




subsection \<open>Fetching\<close>

text \<open>
  C2, as the code has it. With an empty URL \<open>weather_data\<close> sends no request and
  returns the error value \<open>Invalid API URL.\<close> With any other URL it sends exactly one
  request, a GET of that URL with no headers and no body, whatever comes back (no retry);
  a response whose status is not 200, so every response outside 2xx, gives the error
  value \<open>API Error:\<close> with the code and the reason, and a \<open>RequestException\<close> gives the
  error value \<open>Error fetching API data:\<close> with its text.
\<close>

theorem weather_data_one_get:
  "weather_data net [] = (Inr [(''Error'', Text ''Invalid API URL.'')], [])
   \<and> (u \<noteq> [] \<longrightarrow>
        (\<exists>req. snd (weather_data net u) = [req]
           \<and> verb req = GET \<and> url req = u \<and> headers req = [] \<and> json_body req = []
           \<and> (\<forall>r. net req = Returns r \<and> status_code r \<noteq> 200 \<longrightarrow>
                  fst (weather_data net u)
                    = Inr [(''Error'', Text (''API Error: '' @ str_nat (status_code r) @ '' - ''
                                              @ reason r))])
           \<and> (\<forall>m. net req = Raises (Exn RequestException m) \<longrightarrow>
                  fst (weather_data net u)
                    = Inr [(''Error'', Text (''Error fetching API data: '' @ m))])))"
proof -
  have "weather_data net [] = (Inr [(''Error'', Text ''Invalid API URL.'')], [])"
    by (simp add: weather_data_def error_dict_def)
  moreover have "\<exists>req. snd (weather_data net u) = [req]
           \<and> verb req = GET \<and> url req = u \<and> headers req = [] \<and> json_body req = []
           \<and> (\<forall>r. net req = Returns r \<and> status_code r \<noteq> 200 \<longrightarrow>
                  fst (weather_data net u)
                    = Inr [(''Error'', Text (''API Error: '' @ str_nat (status_code r) @ '' - ''
                                              @ reason r))])
           \<and> (\<forall>m. net req = Raises (Exn RequestException m) \<longrightarrow>
                  fst (weather_data net u)
                    = Inr [(''Error'', Text (''Error fetching API data: '' @ m))])"
    if "u \<noteq> []"
    using that
    by (intro exI [of _ "get_request u"])
       (auto simp: weather_data_def Let_def error_dict_def get_request_def split: outcome.splits)
  ultimately show ?thesis by blast
qed

theorem weather_data_one_get_witness:
  "weather_data (net_status 404 ''Not Found'' []) [] = (Inr [(''Error'', Text ''Invalid API URL.'')], [])
   \<and> map verb (snd (weather_data (net_status 404 ''Not Found'' []) ex_url)) = [GET]
   \<and> map url (snd (weather_data (net_status 404 ''Not Found'' []) ex_url)) = [ex_url]
   \<and> fst (weather_data (net_status 404 ''Not Found'' []) ex_url)
     = Inr [(''Error'', Text ''API Error: 404 - Not Found'')]
   \<and> map verb (snd (weather_data net_down ex_url)) = [GET]
   \<and> fst (weather_data net_down ex_url)
     = Inr [(''Error'', Text ''Error fetching API data: Connection reset by peer'')]"
proof -
  have u: "ex_url \<noteq> []" by (simp add: ex_url_def)
  from weather_data_one_get [of "net_status 404 ''Not Found'' []" ex_url] u
  obtain req where a: "snd (weather_data (net_status 404 ''Not Found'' []) ex_url) = [req]"
    "verb req = GET" "url req = ex_url"
    "\<forall>r. net_status 404 ''Not Found'' [] req = Returns r \<and> status_code r \<noteq> 200 \<longrightarrow>
       fst (weather_data (net_status 404 ''Not Found'' []) ex_url)
         = Inr [(''Error'', Text (''API Error: '' @ str_nat (status_code r) @ '' - '' @ reason r))]"
    by blast
  from weather_data_one_get [of net_down ex_url] u
  obtain req' where b: "snd (weather_data net_down ex_url) = [req']" "verb req' = GET"
    "\<forall>m. net_down req' = Raises (Exn RequestException m) \<longrightarrow>
       fst (weather_data net_down ex_url) = Inr [(''Error'', Text (''Error fetching API data: '' @ m))]"
    by blast
  have "fst (weather_data (net_status 404 ''Not Found'' []) ex_url)
          = Inr [(''Error'', Text ''API Error: 404 - Not Found'')]"
    using a(4) by (simp add: net_status_def str_nat.simps digit_char_def)
  moreover have "fst (weather_data net_down ex_url)
          = Inr [(''Error'', Text ''Error fetching API data: Connection reset by peer'')]"
    using b(3) by (simp add: net_down_def)
  moreover have "weather_data (net_status 404 ''Not Found'' []) []
          = (Inr [(''Error'', Text ''Invalid API URL.'')], [])"
    using weather_data_one_get [of "net_status 404 ''Not Found'' []" ex_url] by blast
  ultimately show ?thesis using a(1,2,3) b(1,2) by simp
qed

text \<open>
  C2 as stated fails: an invocation with the empty URL sends no GET at all, and the GET
  of a proper URL carries no timeout.
\<close>

theorem weather_data_counterexample:
  "snd (weather_data net_down []) = []
   \<and> map timeout (snd (weather_data net_down ex_url)) = [None]"
  by (simp add: weather_data_def get_request_def Let_def net_down_def ex_url_def)

subsection \<open>The axis policy\<close>

text \<open>
  C6, as the code has it. When \<open>parsed_data\<close> gave no frame, or a frame without rows,
  the chart is the text that no data is available, whatever the variables. For a frame
  that has rows, the chart is chosen from the number of its variable columns: none gives
  the text that no variables are selected, one gives a single axis on that variable, two
  or more give the first on the primary and the second on the secondary axis, the
  further ones ignored: two frames whose first two variables agree get the same chart.
\<close>

theorem weather_plot_axis_policy:
  "weather_plot None = TextOnly ''No data available''
   \<and> (df_empty d \<longrightarrow> weather_plot (Some d) = TextOnly ''No data available'')
   \<and> (\<not> df_empty d \<longrightarrow>
        (length (cols d) = 0 \<longrightarrow> weather_plot (Some d) = TextOnly ''No variables selected'')
        \<and> (length (cols d) = 1 \<longrightarrow> weather_plot (Some d) = SingleAxis (fst (cols d ! 0)))
        \<and> (2 \<le> length (cols d) \<longrightarrow>
             weather_plot (Some d) = DualAxis (fst (cols d ! 0)) (fst (cols d ! 1)))
        \<and> (\<forall>d'. \<not> df_empty d' \<and> 2 \<le> length (cols d) \<and> 2 \<le> length (cols d')
                \<and> take 2 (map fst (cols d')) = take 2 (map fst (cols d))
              \<longrightarrow> weather_plot (Some d') = weather_plot (Some d)))"
proof -
  have two: "weather_plot (Some e) = DualAxis (fst (cols e ! 0)) (fst (cols e ! 1))"
    if "\<not> df_empty e" "2 \<le> length (cols e)" for e
  proof -
    from that(2) obtain a b r where "cols e = a # b # r"
      by (cases "cols e"; cases "tl (cols e)") auto
    with that(1) show ?thesis by (simp add: weather_plot_def)
  qed
  have one: "weather_plot (Some d) = SingleAxis (fst (cols d ! 0))"
    if "\<not> df_empty d" "length (cols d) = 1"
    using that by (cases "cols d") (auto simp: weather_plot_def)
  have zero: "weather_plot (Some d) = TextOnly ''No variables selected''"
    if "\<not> df_empty d" "length (cols d) = 0"
    using that by (simp add: weather_plot_def)
  have same: "weather_plot (Some d') = weather_plot (Some d)"
    if "\<not> df_empty d" "\<not> df_empty d'" "2 \<le> length (cols d)" "2 \<le> length (cols d')"
       "take 2 (map fst (cols d')) = take 2 (map fst (cols d))" for d'
  proof -
    from that(3) obtain a b r where d: "cols d = a # b # r"
      by (cases "cols d"; cases "tl (cols d)") auto
    from that(4) obtain a' b' r' where d': "cols d' = a' # b' # r'"
      by (cases "cols d'"; cases "tl (cols d')") auto
    from that(5) d d' have "fst a' = fst a" "fst b' = fst b" by (simp_all add: numeral_2_eq_2)
    with d d' that(1,2) show ?thesis by (simp add: weather_plot_def)
  qed
  have none: "weather_plot None = TextOnly ''No data available''"
    by (simp add: weather_plot_def)
  have empty: "weather_plot (Some d) = TextOnly ''No data available''" if "df_empty d"
    using that by (simp add: weather_plot_def)
  show ?thesis
    by (intro conjI impI allI; (elim conjE)?; (rule none empty zero one two same; assumption))
qed

theorem weather_plot_axis_policy_witness:
  "\<not> df_empty (ex_frame [''a'', ''b''])
   \<and> weather_plot (Some (ex_frame [])) = TextOnly ''No variables selected''
   \<and> weather_plot (Some (ex_frame [''a''])) = SingleAxis ''a''
   \<and> weather_plot (Some (ex_frame [''a'', ''b''])) = DualAxis ''a'' ''b''
   \<and> weather_plot (Some (ex_frame [''a'', ''b'', ''c''])) = weather_plot (Some (ex_frame [''a'', ''b'']))
   \<and> df_empty \<lparr> time = TimeCol [], cols = [(''a'', []), (''b'', [])] \<rparr>
   \<and> weather_plot (Some \<lparr> time = TimeCol [], cols = [(''a'', []), (''b'', [])] \<rparr>)
       = TextOnly ''No data available''"
proof -
  have ne: "\<not> df_empty (ex_frame ns)" for ns
    by (simp add: ex_frame_def df_empty_def nrows_def)
  have em: "df_empty \<lparr> time = TimeCol [], cols = [(''a'', []), (''b'', [])] \<rparr>"
    by (simp add: df_empty_def nrows_def)
  have zero: "weather_plot (Some (ex_frame [])) = TextOnly ''No variables selected''"
    using weather_plot_axis_policy [of "ex_frame []", THEN conjunct2, THEN conjunct2, THEN mp,
        OF ne, THEN conjunct1]
    by (simp add: ex_frame_def)
  have one: "weather_plot (Some (ex_frame [''a''])) = SingleAxis ''a''"
    using weather_plot_axis_policy [of "ex_frame [''a'']", THEN conjunct2, THEN conjunct2,
        THEN mp, OF ne, THEN conjunct2, THEN conjunct1]
    by (simp add: ex_frame_def)
  have two: "weather_plot (Some (ex_frame [''a'', ''b''])) = DualAxis ''a'' ''b''"
    using weather_plot_axis_policy [of "ex_frame [''a'', ''b'']", THEN conjunct2, THEN conjunct2,
        THEN mp, OF ne, THEN conjunct2, THEN conjunct2, THEN conjunct1]
    by (simp add: ex_frame_def)
  have same: "weather_plot (Some (ex_frame [''a'', ''b'', ''c'']))
                = weather_plot (Some (ex_frame [''a'', ''b'']))"
    using weather_plot_axis_policy [of "ex_frame [''a'', ''b'']", THEN conjunct2, THEN conjunct2,
        THEN mp, OF ne, THEN conjunct2, THEN conjunct2, THEN conjunct2, THEN spec,
        of "ex_frame [''a'', ''b'', ''c'']"] ne [of "[''a'', ''b'', ''c'']"]
    by (simp add: ex_frame_def)
  have none: "weather_plot (Some \<lparr> time = TimeCol [], cols = [(''a'', []), (''b'', [])] \<rparr>)
                = TextOnly ''No data available''"
    using weather_plot_axis_policy [of "\<lparr> time = TimeCol [], cols = [(''a'', []), (''b'', [])] \<rparr>",
        THEN conjunct2, THEN conjunct1, THEN mp, OF em] .
  from ne [of "[''a'', ''b'']"] zero one two same em none show ?thesis by blast
qed

text \<open>
  C6 as stated fails: when the response has the arrays of the two requested variables
  and all its arrays are empty, \<open>parsed_data\<close> gives a frame with two variable columns
  and no rows, and the chart is the text that no data is available, not a dual axis;
  with one requested variable it is that text too, not a single axis.
\<close>

theorem weather_plot_counterexample:
  "parsed_data ex_parse (VTuple [''air_temp'', ''soil_temp'']) (ex_data ex_empty_obs)
     = Inr (Some \<lparr> time = TimeCol [], cols = [(''air_temp'', []), (''soil_temp'', [])] \<rparr>)
   \<and> plot_render (net_json (ex_data ex_empty_obs)) ex_parse
        (VTuple [''air_temp'', ''soil_temp'']) ex_url = Inr (TextOnly ''No data available'')
   \<and> plot_render (net_json (ex_data ex_empty_obs)) ex_parse
        (VTuple [''air_temp'']) ex_url = Inr (TextOnly ''No data available'')"
  by (simp add: plot_render_def weather_data_def net_json_def ex_data_def
      ex_empty_obs_def ex_url_def get_request_def is_list_def parsed_data_def station_list_of_def
      to_datetime_def get_or_empty_def ex_parse_def
      get_vars_str_def falsy_vars_def df_setitem_def set_column_def df_empty_def
      nrows_def weather_plot_def)

subsection \<open>The sentinel key Error\<close>

text \<open>
  C10. When the GET returns 200 and the decoded object has a top-level key \<open>Error\<close>,
  whatever else it holds, the plot computation shows the text that no data is available
  and the table computation shows the one-cell diagnostic of the same words.
\<close>

theorem error_key_means_no_data:
  assumes "u \<noteq> []" and "net (get_request u) = Returns r" and "status_code r = 200"
    and "json r = Inr data" and "map_of data ''Error'' \<noteq> None"
  shows "plot_render net parse raw u = Inr (TextOnly ''No data available'')
       \<and> table_render net parse raw u = Inr (ErrorGrid ''No data available.'')"
proof -
  have "\<exists>d. fst (weather_data net u) = Inr d \<and> map_of d ''Error'' \<noteq> None"
    using assms by (auto simp: weather_data_def Let_def error_dict_def split: option.splits)
  then obtain d where d: "fst (weather_data net u) = Inr d" "map_of d ''Error'' \<noteq> None"
    by blast
  show ?thesis using d
    by (simp add: plot_render_def table_render_def parsed_data_def variable_data_output_def
        weather_plot_def)
qed

theorem error_key_means_no_data_witness:
  "fst (weather_data (net_json ex_error_data) ex_url) = Inr ex_error_data
   \<and> plot_render (net_json ex_error_data) ex_parse (VTuple [''air_temp'']) ex_url
       = Inr (TextOnly ''No data available'')
   \<and> table_render (net_json ex_error_data) ex_parse (VTuple [''air_temp'']) ex_url
       = Inr (ErrorGrid ''No data available.'')"
  using error_key_means_no_data [of ex_url "net_json ex_error_data"
      "\<lparr> status_code = 200, reason = ''OK'', body_text = [], json = Inr ex_error_data \<rparr>"
      ex_error_data ex_parse "VTuple [''air_temp'']"]
  by (simp add: net_json_def ex_error_data_def weather_data_def get_request_def is_list_def
      Let_def ex_url_def)

subsection \<open>Invalid timestamps\<close>

text \<open>
  C3 at a response whose second \<open>date_time\<close> entry is not a timestamp, while the array
  of the requested variable is present: the table computation coerces the entry to
  \<open>NaT\<close> and shows the table, the plot computation raises.
\<close>

theorem plot_raises_on_invalid_timestamp:
  "plot_render (net_json (ex_data ex_bad_obs)) ex_parse (VTuple [''air_temp'']) ex_url
     = Inl (Exn ValueError ''Unknown datetime string format'')
   \<and> table_render (net_json (ex_data ex_bad_obs)) ex_parse (VTuple [''air_temp'']) ex_url
     = Inr (DataGrid (Some \<lparr> time = TimeCol [Stamp 1738800000000000000, NaT],
                             cols = [(''air_temp'', [Num 1, Num 2])] \<rparr>))"
  by (simp add: plot_render_def table_render_def weather_data_def net_json_def ex_data_def
      ex_bad_obs_def ex_url_def get_request_def is_list_def parsed_data_def station_list_of_def
      to_datetime_def get_or_empty_def ex_parse_def variable_data_output_def table_body_def
      get_vars_str_def falsy_vars_def to_datetime_coerce_def DataFrame2_def df_empty_def
      nrows_def merge_step_def)

subsection \<open>Sorting, positions and the join\<close>

lemma set_insort_by: "set (insort_by le x xs) = insert x (set xs)"
  by (induction xs) auto

lemma set_sort_by: "set (sort_by le xs) = set xs"
  by (induction xs) (auto simp: sort_by_def set_insort_by)

lemma mset_insort_by: "mset (insort_by le x xs) = add_mset x (mset xs)"
  by (induction xs) auto

lemma mset_sort_by: "mset (sort_by le xs) = mset xs"
  by (induction xs) (auto simp: sort_by_def mset_insort_by)

lemma length_sort_by: "length (sort_by le xs) = length xs"
  using mset_sort_by [of le xs] by (metis size_mset)

lemma positions_empty_iff: "positions k ks = [] \<longleftrightarrow> k \<notin> set ks"
  by (auto simp: positions_def filter_empty_conv in_set_conv_nth)

lemma positions_distinct:
  assumes "distinct ks" "i < length ks"
  shows "positions (ks ! i) ks = [i]"
proof -
  have "filter (\<lambda>j. ks ! j = ks ! i) [0..<length ks] = filter (\<lambda>j. j = i) [0..<length ks]"
    using assms by (intro filter_cong) (auto simp: nth_eq_iff_index_eq)
  also have "\<dots> = [i]" using assms(2)
    by (induction ks rule: rev_induct) (auto simp: less_Suc_eq filter_empty_conv)
  finally show ?thesis by (simp add: positions_def)
qed

lemma positions_cases:
  assumes "distinct ks"
  shows "(k \<notin> set ks \<and> positions k ks = []) \<or> (\<exists>i<length ks. ks ! i = k \<and> positions k ks = [i])"
proof (cases "k \<in> set ks")
  case True
  then obtain i where "i < length ks" "ks ! i = k" by (auto simp: in_set_conv_nth)
  with positions_distinct [OF assms, of i] show ?thesis by auto
next
  case False
  then show ?thesis by (simp add: positions_empty_iff)
qed



lemma dups_caused_same: "\<not> dups_caused xs xs"
  by (simp add: dups_caused_def zip_same_conv_map list_ex_iff)

lemma suffixed_Nil: "suffixed [] sfx n = n"
  by (simp add: suffixed_def)

lemma no_overlap_no_clash:
  assumes "set (map fst (cols l)) \<inter> set (map fst (cols r)) = {}"
  shows "\<not> suffix_clash l r"
proof -
  have "filter (\<lambda>n. n \<in> set (map fst (cols r))) (map fst (cols l)) = []"
    using assms by (auto simp: filter_empty_conv)
  then show ?thesis by (simp add: suffix_clash_def suffixed_Nil dups_caused_same comp_def)
qed

lemma no_overlap_joined_cols:
  assumes "set (map fst (cols l)) \<inter> set (map fst (cols r)) = {}"
  shows "joined_cols l r ixs =
           map (\<lambda>c. (fst c, gather (snd c) (map fst ixs))) (cols l)
           @ map (\<lambda>c. (fst c, gather (snd c) (map snd ixs))) (cols r)"
proof -
  have "filter (\<lambda>n. n \<in> set (map fst (cols r))) (map fst (cols l)) = []"
    using assms by (auto simp: filter_empty_conv)
  then show ?thesis by (simp add: joined_cols_def suffixed_Nil)
qed

lemma pd_merge_series:
  assumes "a \<noteq> b"
  shows "pd_merge \<lparr> time = TimeCol ta, cols = [(a, va)] \<rparr> \<lparr> time = TimeCol tb, cols = [(b, vb)] \<rparr>
           = Inr \<lparr> time = TimeCol (map fst (outer_join ts_le ta tb)),
                   cols = [(a, gather va (map (fst \<circ> snd) (outer_join ts_le ta tb))),
                           (b, gather vb (map (snd \<circ> snd) (outer_join ts_le ta tb)))] \<rparr>"
  using assms
  by (simp add: pd_merge_def no_overlap_no_clash no_overlap_joined_cols Let_def)

lemma frame_rows_series:
  "frame_rows \<lparr> time = TimeCol (map fst j),
                cols = [(a, gather va (map (fst \<circ> snd) j)), (b, gather vb (map (snd \<circ> snd) j))] \<rparr>
     = map (series_row a va b vb) j"
  by (rule nth_equalityI)
     (simp_all add: frame_rows_def nrows_def key_cells_def gather_def series_row_def)

lemma DataFrame2_series:
  assumes "DataFrame2 ts v vs = Inr f" "v \<noteq> ''Time''"
  shows "f = \<lparr> time = TimeCol ts, cols = [(v, vs)] \<rparr> \<and> length ts = length vs"
  using assms by (auto simp: DataFrame2_def split: if_splits)

lemma merge_air_soil: "merge_pair ex_air ex_soil = Inr ex_air_soil"
  by code_simp

lemma merge_soil_air: "merge_pair ex_soil ex_air = Inr ex_soil_air"
  by code_simp

subsection \<open>The row count of the outer join\<close>

lemma pick_cell_at:
  assumes "distinct ks" "length ks = length vs"
  shows "(k \<notin> set ks \<longrightarrow> cell_at ks vs k = Null)
       \<and> (\<forall>i<length ks. ks ! i = k \<longrightarrow> cell_at ks vs k = vs ! i)"
proof -
  have "cell_at ks vs k = Null" if "k \<notin> set ks"
  proof -
    from that assms(2) have "map_of (zip ks vs) k = None"
      by (simp add: map_of_zip_is_None)
    then show ?thesis by (simp add: cell_at_def)
  qed
  moreover have "cell_at ks vs (ks ! i) = vs ! i" if "i < length ks" for i
    using assms that by (simp add: cell_at_def map_of_zip_nth)
  ultimately show ?thesis by auto
qed

lemma group_row_distinct:
  assumes "distinct ta" "distinct tb" "length ta = length va" "length tb = length vb"
    and "k \<in> set ta \<union> set tb"
  shows "map (series_row a va b vb) (map (Pair k) (group_pairs (positions k ta) (positions k tb)))
           = [(KTime k, [(a, cell_at ta va k), (b, cell_at tb vb k)])]"
proof -
  note ca = pick_cell_at [OF assms(1,3), of k] and cb = pick_cell_at [OF assms(2,4), of k]
  from positions_cases [OF assms(1), of k] positions_cases [OF assms(2), of k] assms(5)
  show ?thesis
    using ca cb by (auto simp: group_pairs_def series_row_def pick_def)
qed

lemma concat_singletons:
  assumes "\<And>k. k \<in> set ks \<Longrightarrow> f k = [g k]"
  shows "concat (map f ks) = map g ks"
  using assms by (induction ks) auto

lemma outer_join_rows_distinct:
  assumes "distinct ta" "distinct tb" "length ta = length va" "length tb = length vb"
  shows "map (series_row a va b vb) (outer_join ts_le ta tb)
           = map (\<lambda>k. (KTime k, [(a, cell_at ta va k), (b, cell_at tb vb k)]))
                 (sort_by ts_le (remdups (ta @ tb)))"
proof -
  have "map (series_row a va b vb) (outer_join ts_le ta tb)
          = concat (map (\<lambda>k. map (series_row a va b vb)
                                (map (Pair k) (group_pairs (positions k ta) (positions k tb))))
                        (sort_by ts_le (remdups (ta @ tb))))"
    by (simp add: outer_join_def map_concat comp_def)
  also have "\<dots> = map (\<lambda>k. (KTime k, [(a, cell_at ta va k), (b, cell_at tb vb k)]))
                      (sort_by ts_le (remdups (ta @ tb)))"
    by (rule concat_singletons) (rule group_row_distinct [OF assms], simp add: set_sort_by)
  finally show ?thesis .
qed

lemma merge_air_late: "merge_pair ex_air ex_late_soil = Inr ex_air_late"
  by code_simp

text \<open>
  C5, as the code has it. Two series of different variables, neither called \<open>Time\<close>,
  the first with rows, and neither with a repeated timestamp (\<open>NaT\<close> counts as one):
  the merge succeeds, the table has exactly as many rows as there are timestamps in the
  union of the two, one row for each timestamp of the union, and in a row the cell of a
  variable is its observation at the row's timestamp, the missing marker when it has
  none there.
\<close>

theorem outer_join_union_rows:
  assumes "DataFrame2 ta a va = Inr A" and "DataFrame2 tb b vb = Inr B"
    and "a \<noteq> ''Time''" and "b \<noteq> ''Time''" and "a \<noteq> b"
    and "\<not> df_empty A" and "distinct ta" and "distinct tb"
  shows "\<exists>M. merge_pair A B = Inr M
           \<and> nrows M = card (set ta \<union> set tb)
           \<and> mset (frame_rows M)
               = image_mset
                   (\<lambda>k. (KTime k,
                         [(a, case map_of (zip ta va) k of None \<Rightarrow> Null | Some v \<Rightarrow> v),
                          (b, case map_of (zip tb vb) k of None \<Rightarrow> Null | Some v \<Rightarrow> v)]))
                   (mset_set (set ta \<union> set tb))"
proof -
  from DataFrame2_series [OF assms(1,3)] DataFrame2_series [OF assms(2,4)]
  have A: "A = \<lparr> time = TimeCol ta, cols = [(a, va)] \<rparr>" and la: "length ta = length va"
    and B: "B = \<lparr> time = TimeCol tb, cols = [(b, vb)] \<rparr>" and lb: "length tb = length vb"
    by auto
  let ?j = "outer_join ts_le ta tb"
  let ?M = "\<lparr> time = TimeCol (map fst ?j),
               cols = [(a, gather va (map (fst \<circ> snd) ?j)), (b, gather vb (map (snd \<circ> snd) ?j))] \<rparr>"
  let ?row = "\<lambda>k. (KTime k, [(a, cell_at ta va k), (b, cell_at tb vb k)])"
  have m: "merge_pair A B = Inr ?M"
    using assms(6) pd_merge_series [OF assms(5), of ta va tb vb]
    by (simp add: merge_pair_def merge_step_def A B)
  have rows: "frame_rows ?M = map ?row (sort_by ts_le (remdups (ta @ tb)))"
    by (simp only: frame_rows_series outer_join_rows_distinct [OF assms(7,8) la lb])
  have "nrows ?M = length (frame_rows ?M)" by (simp add: frame_rows_def)
  also have "\<dots> = length (remdups (ta @ tb))" by (simp only: rows length_map length_sort_by)
  also have "\<dots> = card (set ta \<union> set tb)" by (simp add: length_remdups_card_conv)
  finally have count: "nrows ?M = card (set ta \<union> set tb)" .
  have "mset (remdups (ta @ tb)) = mset_set (set (remdups (ta @ tb)))"
    by (rule mset_set_set [symmetric]) simp
  then have keys: "mset (sort_by ts_le (remdups (ta @ tb))) = mset_set (set ta \<union> set tb)"
    by (simp add: mset_sort_by)
  have "mset (frame_rows ?M) = image_mset ?row (mset (sort_by ts_le (remdups (ta @ tb))))"
    by (simp only: rows mset_map)
  then have "mset (frame_rows ?M) = image_mset ?row (mset_set (set ta \<union> set tb))"
    by (simp only: keys)
  then have "mset (frame_rows ?M)
               = image_mset
                   (\<lambda>k. (KTime k,
                         [(a, case map_of (zip ta va) k of None \<Rightarrow> Null | Some v \<Rightarrow> v),
                          (b, case map_of (zip tb vb) k of None \<Rightarrow> Null | Some v \<Rightarrow> v)]))
                   (mset_set (set ta \<union> set tb))"
    by (simp add: cell_at_def)
  with m count show ?thesis by blast
qed

theorem outer_join_union_rows_witness:
  "merge_pair ex_air ex_late_soil = Inr ex_air_late
   \<and> nrows ex_air_late = card (set [Stamp 10, Stamp 20] \<union> set [NaT, Stamp 20])
   \<and> nrows ex_air_late = 3
   \<and> mset (frame_rows ex_air_late)
       = {# (KTime NaT, [(''air_temp'', Null), (''soil_temp'', Num 3)]),
            (KTime (Stamp 10), [(''air_temp'', Num 1), (''soil_temp'', Null)]),
            (KTime (Stamp 20), [(''air_temp'', Num 2), (''soil_temp'', Num 4)]) #}"
proof -
  have "DataFrame2 [Stamp 10, Stamp 20] ''air_temp'' [Num 1, Num 2] = Inr ex_air"
    and "DataFrame2 [NaT, Stamp 20] ''soil_temp'' [Num 3, Num 4] = Inr ex_late_soil"
    and "''air_temp'' \<noteq> ''Time''" and "''soil_temp'' \<noteq> ''Time''"
    and "''air_temp'' \<noteq> ''soil_temp''" and "\<not> df_empty ex_air"
    and "distinct [Stamp 10, Stamp 20]" and "distinct [NaT, Stamp 20]"
    by (simp_all add: DataFrame2_def ex_air_def ex_late_soil_def df_empty_def nrows_def)
  from outer_join_union_rows [OF this] obtain M where M:
    "merge_pair ex_air ex_late_soil = Inr M"
    "nrows M = card (set [Stamp 10, Stamp 20] \<union> set [NaT, Stamp 20])"
    by blast
  from M(1) have eq: "M = ex_air_late" by (simp add: merge_air_late)
  have three: "nrows ex_air_late = 3" by (simp add: ex_air_late_def nrows_def)
  have rows: "frame_rows ex_air_late
       = [(KTime NaT, [(''air_temp'', Null), (''soil_temp'', Num 3)]),
          (KTime (Stamp 10), [(''air_temp'', Num 1), (''soil_temp'', Null)]),
          (KTime (Stamp 20), [(''air_temp'', Num 2), (''soil_temp'', Num 4)])]"
    by code_simp
  show ?thesis using M(2) eq three by (simp add: merge_air_late rows)
qed

text \<open>
  C5 as stated fails when a timestamp repeats: a response whose \<open>date_time\<close> holds
  one timestamp twice gives a table of four rows for two variables, and so does the
  merge of two such series, while the union of the timestamps has one element.
\<close>

theorem union_row_count_counterexample:
  "table_render (net_json (ex_data ex_dup_obs)) ex_parse (VTuple [''air_temp'', ''soil_temp'']) ex_url
     = Inr (DataGrid (Some \<lparr> time = TimeCol (replicate 4 (Stamp 1738800000000000000)),
                             cols = [(''air_temp'', [Num 1, Num 1, Num 2, Num 2]),
                                     (''soil_temp'', [Num 3, Num 4, Num 3, Num 4])] \<rparr>))
   \<and> merge_pair ex_dup_air ex_dup_soil
     = Inr \<lparr> time = TimeCol (replicate 4 (Stamp 10)),
             cols = [(''air_temp'', [Num 1, Num 1, Num 2, Num 2]),
                     (''soil_temp'', [Num 3, Num 4, Num 3, Num 4])] \<rparr>
   \<and> card (set [Stamp 10, Stamp 10] \<union> set [Stamp 10, Stamp 10]) = 1"
proof -
  have "table_render (net_json (ex_data ex_dup_obs)) ex_parse (VTuple [''air_temp'', ''soil_temp'']) ex_url
     = Inr (DataGrid (Some \<lparr> time = TimeCol (replicate 4 (Stamp 1738800000000000000)),
                             cols = [(''air_temp'', [Num 1, Num 1, Num 2, Num 2]),
                                     (''soil_temp'', [Num 3, Num 4, Num 3, Num 4])] \<rparr>))"
    by code_simp
  moreover have "merge_pair ex_dup_air ex_dup_soil
     = Inr \<lparr> time = TimeCol (replicate 4 (Stamp 10)),
             cols = [(''air_temp'', [Num 1, Num 1, Num 2, Num 2]),
                     (''soil_temp'', [Num 3, Num 4, Num 3, Num 4])] \<rparr>"
    by code_simp
  moreover have "card (set [Stamp 10, Stamp 10] \<union> set [Stamp 10, Stamp 10]) = 1"
    by simp
  ultimately show ?thesis by blast
qed

subsection \<open>The order of the two series\<close>

lemma mset_concat_Cons_each:
  "mset (concat (map (\<lambda>y. g y # h y) ys)) = mset (map g ys) + mset (concat (map h ys))"
  by (induction ys) auto

lemma mset_product_commute:
  "mset (concat (map (\<lambda>x. map (f x) ys) xs)) = mset (concat (map (\<lambda>y. map (\<lambda>x. f x y) xs) ys))"
proof (induction xs)
  case Nil
  show ?case by (induction ys) auto
next
  case (Cons x xs)
  then show ?case by (simp add: mset_concat_Cons_each)
qed

lemma group_pairs_swap:
  "mset (group_pairs rs ls) = mset (map prod.swap (group_pairs ls rs))"
proof (cases "ls = [] \<or> rs = []")
  case True
  then show ?thesis by (auto simp: group_pairs_def multiset.map_comp comp_def)
next
  case False
  then have "group_pairs rs ls = concat (map (\<lambda>i. map (\<lambda>j. (Some i, Some j)) ls) rs)"
    and "map prod.swap (group_pairs ls rs) = concat (map (\<lambda>i. map (\<lambda>j. (Some j, Some i)) rs) ls)"
    by (simp_all add: group_pairs_def map_concat comp_def)
  then show ?thesis
    using mset_product_commute [of "\<lambda>i j. (Some i, Some j)" ls rs] by simp
qed

lemma mset_concat_map: "mset (concat (map F ks)) = (\<Sum>k\<in>#mset ks. mset (F k))"
  by (induction ks) auto

lemma outer_join_swap:
  "mset (outer_join le rk lk) = mset (map swap_sides (outer_join le lk rk))"
proof -
  have keys: "mset (sort_by le (remdups (rk @ lk))) = mset (sort_by le (remdups (lk @ rk)))"
  proof -
    have "set (remdups (rk @ lk)) = set (remdups (lk @ rk))" by auto
    then have "mset (remdups (rk @ lk)) = mset (remdups (lk @ rk))"
      by (metis distinct_remdups set_eq_iff_mset_eq_distinct)
    then show ?thesis by (simp add: mset_sort_by)
  qed
  have grp: "mset (map (Pair k) (group_pairs (positions k rk) (positions k lk)))
               = mset (map swap_sides (map (Pair k) (group_pairs (positions k lk) (positions k rk))))"
    for k
  proof -
    have "map swap_sides (map (Pair k) ps) = map (Pair k) (map prod.swap ps)" for ps
      by (simp add: swap_sides_def comp_def prod.swap_def case_prod_unfold)
    then show ?thesis
      using group_pairs_swap [of "positions k rk" "positions k lk"]
      by (metis mset_map)
  qed
  show ?thesis
    unfolding outer_join_def
    by (simp only: map_concat map_map comp_def mset_concat_map keys grp)
qed

lemma row_cells_swap:
  assumes "a \<noteq> b"
  shows "row_cells (series_row b vb a va (swap_sides t)) = row_cells (series_row a va b vb t)"
  using assms by (auto simp: row_cells_def series_row_def swap_sides_def fun_eq_iff)

text \<open>
  C4. Two series of different variables, neither called \<open>Time\<close>, both with rows (the
  table computation merges no others): merging the first and then the second, and
  merging the second and then the first, both succeed; the two tables have the same
  rows, each as often, every row with its timestamp and the same value in the cell of
  each variable, and the same column names in another order.
\<close>

theorem outer_join_commutes:
  assumes "DataFrame2 ta a va = Inr A" and "DataFrame2 tb b vb = Inr B"
    and "a \<noteq> ''Time''" and "b \<noteq> ''Time''" and "a \<noteq> b"
    and "\<not> df_empty A" and "\<not> df_empty B"
  shows "\<exists>M N. merge_pair A B = Inr M \<and> merge_pair B A = Inr N
           \<and> image_mset row_cells (mset (frame_rows M)) = image_mset row_cells (mset (frame_rows N))
           \<and> mset (map fst (cols M)) = mset (map fst (cols N))"
proof -
  from DataFrame2_series [OF assms(1,3)] DataFrame2_series [OF assms(2,4)]
  have A: "A = \<lparr> time = TimeCol ta, cols = [(a, va)] \<rparr>"
    and B: "B = \<lparr> time = TimeCol tb, cols = [(b, vb)] \<rparr>"
    by auto
  let ?j = "outer_join ts_le ta tb" and ?j' = "outer_join ts_le tb ta"
  let ?M = "\<lparr> time = TimeCol (map fst ?j),
               cols = [(a, gather va (map (fst \<circ> snd) ?j)), (b, gather vb (map (snd \<circ> snd) ?j))] \<rparr>"
  let ?N = "\<lparr> time = TimeCol (map fst ?j'),
               cols = [(b, gather vb (map (fst \<circ> snd) ?j')), (a, gather va (map (snd \<circ> snd) ?j'))] \<rparr>"
  have m: "merge_pair A B = Inr ?M"
    using assms(6) pd_merge_series [OF assms(5), of ta va tb vb]
    by (simp add: merge_pair_def merge_step_def A B)
  have n: "merge_pair B A = Inr ?N"
    using assms(7) pd_merge_series [OF assms(5) [symmetric], of tb vb ta va]
    by (simp add: merge_pair_def merge_step_def A B)
  have fm: "frame_rows ?M = map (series_row a va b vb) ?j"
    and fn: "frame_rows ?N = map (series_row b vb a va) ?j'"
    by (rule frame_rows_series)+
  have "image_mset row_cells (mset (frame_rows ?N))
          = image_mset (\<lambda>t. row_cells (series_row b vb a va t)) (mset ?j')"
    unfolding fn by (simp add: multiset.map_comp comp_def)
  also have "\<dots> = image_mset (\<lambda>t. row_cells (series_row b vb a va t))
                      (image_mset swap_sides (mset ?j))"
    by (simp only: outer_join_swap [of ts_le tb ta] mset_map)
  also have "\<dots> = image_mset (\<lambda>t. row_cells (series_row a va b vb t)) (mset ?j)"
    by (simp add: multiset.map_comp comp_def row_cells_swap [OF assms(5)])
  also have "\<dots> = image_mset row_cells (mset (frame_rows ?M))"
    unfolding fm by (simp add: multiset.map_comp comp_def)
  finally have rows: "image_mset row_cells (mset (frame_rows ?M))
                        = image_mset row_cells (mset (frame_rows ?N))" by simp
  have names: "mset (map fst (cols ?M)) = mset (map fst (cols ?N))" by simp
  from m n rows names show ?thesis by blast
qed

theorem outer_join_commutes_witness:
  "merge_pair ex_air ex_soil = Inr ex_air_soil \<and> merge_pair ex_soil ex_air = Inr ex_soil_air
   \<and> image_mset row_cells (mset (frame_rows ex_air_soil))
       = image_mset row_cells (mset (frame_rows ex_soil_air))"
proof -
  have "DataFrame2 [Stamp 10, Stamp 20] ''air_temp'' [Num 1, Num 2] = Inr ex_air"
    and "DataFrame2 [Stamp 30, Stamp 20] ''soil_temp'' [Num 3, Num 4] = Inr ex_soil"
    and "''air_temp'' \<noteq> ''Time''" and "''soil_temp'' \<noteq> ''Time''"
    and "''air_temp'' \<noteq> ''soil_temp''" and "\<not> df_empty ex_air" and "\<not> df_empty ex_soil"
    by (simp_all add: DataFrame2_def ex_air_def ex_soil_def df_empty_def nrows_def)
  from outer_join_commutes [OF this] obtain M N where
    "merge_pair ex_air ex_soil = Inr M" "merge_pair ex_soil ex_air = Inr N"
    "image_mset row_cells (mset (frame_rows M)) = image_mset row_cells (mset (frame_rows N))"
    by blast
  then show ?thesis by (simp add: merge_air_soil merge_soil_air)
qed

subsection \<open>A requested variable that the response lacks\<close>








end
